theory Spec2Isabelle
  imports Complex_Main
begin

section \<open>Periodogram analysis: data model\<close>

text \<open>
  The development follows \<^verbatim>\<open>src/PeriodogramAnalysis/PeriodogramAnalysis.py\<close>.
  Python and NumPy floating-point values are represented by real numbers, so rounding is
  not part of the model; the three special results that a NumPy division by zero
  produces are kept apart from the finite values (type \<open>npfloat\<close>).

  Exceptions are values. \<open>py_exn\<close> lists the built-in Python exceptions that the
  statements of the source, NumPy indexing and the numeric libraries raise. The type
  \<open>error\<close> wraps them and adds the three error kinds that the specification names;
  no statement of the source raises one of those three.
\<close>

datatype py_exn = TypeError | ZeroDivisionError | IndexError | KeyError | ValueError

datatype error = Py py_exn | InvalidSignalError | InvalidWindowError | InsufficientResolutionError

datatype npfloat = Fin real | NaN | PosInf | NegInf

text \<open>
  One chunk of the input (\<^verbatim>\<open>signal_piece\<close>): the attributes the source reads are
  \<^verbatim>\<open>rate\<close>, \<^verbatim>\<open>number_of_channels\<close> and the two-dimensional buffer \<^verbatim>\<open>data\<close>
  (time samples by channels). The buffer is kept column-wise: \<open>data s ! c\<close> is
  \<^verbatim>\<open>signal.data[:, c]\<close>.
\<close>

record Signal =
  rate :: real
  number_of_channels :: nat
  data :: "real list list"

text \<open>The fields of the dataclass \<^verbatim>\<open>PeriodogramAnalysis\<close> (lines 31-33).\<close>

record PeriodogramAnalysis =
  exclude_channel_list :: "nat list"
  band_list :: "(real \<times> real) list"
  window_length_for_welch :: "real option"

text \<open>\<^verbatim>\<open>psd_dict[channel]\<close>: the dictionary with the keys \<^verbatim>\<open>'freqs'\<close> and \<^verbatim>\<open>'psd'\<close> (lines 90-93).\<close>

record psd_entry =
  freqs :: "real list"
  psd :: "real list"

text \<open>\<^verbatim>\<open>power_dict[channel]\<close>: the fifteen keys of lines 144-160.\<close>

record power_entry =
  idx_delta :: "bool list"
  idx_theta :: "bool list"
  idx_alpha :: "bool list"
  idx_beta :: "bool list"
  idx_gamma :: "bool list"
  delta_power :: real
  theta_power :: real
  alpha_power :: real
  beta_power :: real
  gamma_power :: real
  delta_rel_power :: npfloat
  theta_rel_power :: npfloat
  alpha_rel_power :: npfloat
  beta_rel_power :: npfloat
  gamma_rel_power :: npfloat

text \<open>
  The routines that the source imports and that are not part of the repository are
  parameters of the model:
  \<^item> \<open>welch x fs nperseg nfft\<close> is \<^verbatim>\<open>sig.welch(x, fs, nperseg=nperseg, nfft=nfft)\<close>,
    returning \<^verbatim>\<open>(freqs, psd)\<close>; \<open>nfft = None\<close> is the call without that keyword;
  \<^item> \<open>simpson y dx\<close> is \<^verbatim>\<open>scipy.integrate.simpson(y, dx=dx)\<close>;
  \<^item> \<open>multitaper_psd x fs\<close> is \<^verbatim>\<open>multitaper_psd(x, fs)\<close>, returning \<^verbatim>\<open>(psd, freqs)\<close>;
  \<^item> \<open>getitem s c\<close> is \<^verbatim>\<open>signal[c]\<close>, the indexing of the host framework's signal class.
  Each of them returns its value or the exception it raises.
\<close>

record library =
  welch :: "real list \<Rightarrow> real \<Rightarrow> real \<Rightarrow> real option \<Rightarrow> py_exn + (real list \<times> real list)"
  simpson :: "real list \<Rightarrow> real \<Rightarrow> py_exn + real"
  multitaper_psd :: "real list \<Rightarrow> real \<Rightarrow> py_exn + (real list \<times> real list)"
  getitem :: "Signal \<Rightarrow> nat \<Rightarrow> py_exn + real list"

text \<open>The lines that the orchestrator hands to \<^verbatim>\<open>self.logger.info\<close>, with the values they print.\<close>

datatype estimator = Multitaper | Welch

datatype log_line =
    Analysis nat nat
  | BandPower "real \<times> real" bool estimator npfloat
  | NamedPower bool string nat npfloat

type_synonym psd_dict = "(nat \<times> psd_entry) list"
type_synonym power_dict = "(nat \<times> power_entry) list"

section \<open>Elementary operations\<close>

definition err_bind :: "error + 'a \<Rightarrow> ('a \<Rightarrow> error + 'b) \<Rightarrow> error + 'b" where
  "err_bind m f = (case m of Inl e \<Rightarrow> Inl e | Inr x \<Rightarrow> f x)"

definition from_lib :: "py_exn + 'a \<Rightarrow> error + 'a" where
  "from_lib r = (case r of Inl e \<Rightarrow> Inl (Py e) | Inr x \<Rightarrow> Inr x)"

text \<open>\<^verbatim>\<open>np.mean\<close> of a one-dimensional array, and the subtraction of line 88.\<close>

definition np_mean :: "real list \<Rightarrow> real" where
  "np_mean xs = sum_list xs / real (length xs)"

definition remove_bias :: "real list \<Rightarrow> real list" where
  "remove_bias xs = map (\<lambda>x. x - np_mean xs) xs"

text \<open>\<^verbatim>\<open>signal.data[:, channel]\<close>: a column outside the buffer raises.\<close>

definition data_column :: "Signal \<Rightarrow> nat \<Rightarrow> error + real list" where
  "data_column s ch = (if ch < length (data s) then Inr (data s ! ch) else Inl (Py IndexError))"

text \<open>
  The division of two NumPy floats (lines 138-142, 295 and 332): a zero divisor gives
  a special value and a warning, never an exception.
\<close>

definition np_true_divide :: "real \<Rightarrow> real \<Rightarrow> npfloat" where
  "np_true_divide a b =
     (if b \<noteq> 0 then Fin (a / b)
      else if a = 0 then NaN
      else if 0 < a then PosInf
      else NegInf)"

text \<open>\<^verbatim>\<open>freqs[1] - freqs[0]\<close> (lines 123, 290 and 327).\<close>

definition freq_resolution :: "real list \<Rightarrow> error + real" where
  "freq_resolution fs = (if length fs < 2 then Inl (Py IndexError) else Inr (fs ! 1 - fs ! 0))"

text \<open>\<^verbatim>\<open>np.logical_and(freqs >= low, freqs <= high)\<close> (lines 125-129, 291 and 328).\<close>

definition band_mask :: "real list \<Rightarrow> real \<Rightarrow> real \<Rightarrow> bool list" where
  "band_mask fs low high = map (\<lambda>f. low \<le> f \<and> f \<le> high) fs"

text \<open>\<^verbatim>\<open>psd[idx]\<close> with a boolean array: the lengths must agree.\<close>

definition take_masked :: "real list \<Rightarrow> bool list \<Rightarrow> error + real list" where
  "take_masked ys m =
     (if length m \<noteq> length ys then Inl (Py IndexError)
      else Inr (map fst (filter snd (zip ys m))))"

text \<open>\<^verbatim>\<open>simpson(psd[idx], dx=freq_res)\<close>.\<close>

definition masked_simpson :: "library \<Rightarrow> real list \<Rightarrow> bool list \<Rightarrow> real \<Rightarrow> error + real" where
  "masked_simpson L ps m dx = err_bind (take_masked ps m) (\<lambda>ys. from_lib (simpson L ys dx))"

section \<open>The methods of the class\<close>

subsection \<open>\<^verbatim>\<open>computing_welch_periodogram\<close> (lines 69-94)\<close>

text \<open>
  The loop over \<^verbatim>\<open>range(signal.number_of_channels)\<close>. The dictionary it fills is the
  association list of its entries in insertion order.
\<close>

fun welch_channels ::
  "library \<Rightarrow> PeriodogramAnalysis \<Rightarrow> Signal \<Rightarrow> real \<Rightarrow> nat list \<Rightarrow> error + psd_dict" where
  "welch_channels L self s win [] = Inr []"
| "welch_channels L self s win (channel # rest) =
     (if channel \<in> set (exclude_channel_list self) then welch_channels L self s win rest
      else
        err_bind (data_column s channel) (\<lambda>col.
        err_bind (from_lib (welch L (remove_bias col) (rate s) win (Some (4 * win)))) (\<lambda>(f, p).
        err_bind (welch_channels L self s win rest) (\<lambda>more.
          Inr ((channel, \<lparr>freqs = f, psd = p\<rparr>) # more)))))"

definition computing_welch_periodogram ::
  "library \<Rightarrow> PeriodogramAnalysis \<Rightarrow> Signal \<Rightarrow> error + psd_dict" where
  "computing_welch_periodogram L self s =
     (case window_length_for_welch self of
        None \<Rightarrow> Inl (Py TypeError)
      | Some w \<Rightarrow> welch_channels L self s (w * rate s) [0..<number_of_channels s])"

subsection \<open>\<^verbatim>\<open>computing_absolute_and_relative_power\<close> (lines 96-162)\<close>

text \<open>The body of the loop, lines 121-160, for one entry of \<^verbatim>\<open>psd_dict\<close>.\<close>

definition channel_power :: "library \<Rightarrow> psd_entry \<Rightarrow> error + power_entry" where
  "channel_power L e =
     (let fs = freqs e; ps = psd e in
      err_bind (freq_resolution fs) (\<lambda>freq_res.
      let i_delta = band_mask fs 0.5 4;
          i_theta = band_mask fs 4 8;
          i_alpha = band_mask fs 8 12;
          i_beta = band_mask fs 12 30;
          i_gamma = band_mask fs 30 100 in
      err_bind (masked_simpson L ps i_delta freq_res) (\<lambda>p_delta.
      err_bind (masked_simpson L ps i_theta freq_res) (\<lambda>p_theta.
      err_bind (masked_simpson L ps i_alpha freq_res) (\<lambda>p_alpha.
      err_bind (masked_simpson L ps i_beta freq_res) (\<lambda>p_beta.
      err_bind (masked_simpson L ps i_gamma freq_res) (\<lambda>p_gamma.
      err_bind (from_lib (simpson L ps freq_res)) (\<lambda>total_power.
        Inr \<lparr>idx_delta = i_delta, idx_theta = i_theta, idx_alpha = i_alpha,
             idx_beta = i_beta, idx_gamma = i_gamma,
             delta_power = p_delta, theta_power = p_theta, alpha_power = p_alpha,
             beta_power = p_beta, gamma_power = p_gamma,
             delta_rel_power = np_true_divide p_delta total_power,
             theta_rel_power = np_true_divide p_theta total_power,
             alpha_rel_power = np_true_divide p_alpha total_power,
             beta_rel_power = np_true_divide p_beta total_power,
             gamma_rel_power = np_true_divide p_gamma total_power\<rparr>))))))))"

fun computing_absolute_and_relative_power :: "library \<Rightarrow> psd_dict \<Rightarrow> error + power_dict" where
  "computing_absolute_and_relative_power L [] = Inr []"
| "computing_absolute_and_relative_power L ((channel, e) # rest) =
     err_bind (channel_power L e) (\<lambda>p.
     err_bind (computing_absolute_and_relative_power L rest) (\<lambda>more.
       Inr ((channel, p) # more)))"

subsection \<open>The band power of one curve (lines 290-296 and 327-333)\<close>

text \<open>
  \<^verbatim>\<open>computing_multitaper_bandpower\<close> and \<^verbatim>\<open>computing_welch_bandpower\<close> end with the
  same six statements, applied to the arrays \<^verbatim>\<open>freqs\<close> and \<^verbatim>\<open>psd\<close> that the estimator
  returned. They are written once.
\<close>

definition band_power_of ::
  "library \<Rightarrow> real list \<Rightarrow> real list \<Rightarrow> real \<times> real \<Rightarrow> bool \<Rightarrow> error + npfloat" where
  "band_power_of L fs ps band relative =
     (case band of (low, high) \<Rightarrow>
      err_bind (freq_resolution fs) (\<lambda>freq_res.
      err_bind (masked_simpson L ps (band_mask fs low high) freq_res) (\<lambda>bp.
        if relative
        then err_bind (from_lib (simpson L ps freq_res)) (\<lambda>total. Inr (np_true_divide bp total))
        else Inr (Fin bp))))"

subsection \<open>\<^verbatim>\<open>computing_multitaper_bandpower\<close> (lines 265-296)\<close>

definition computing_multitaper_bandpower ::
  "library \<Rightarrow> Signal \<Rightarrow> real \<times> real \<Rightarrow> nat \<Rightarrow> bool \<Rightarrow> error + npfloat" where
  "computing_multitaper_bandpower L s band channel relative =
     err_bind (from_lib (getitem L s channel)) (\<lambda>x.
     err_bind (from_lib (multitaper_psd L x (rate s))) (\<lambda>(p, f).
       band_power_of L f p band relative))"

subsection \<open>\<^verbatim>\<open>computing_welch_bandpower\<close> (lines 298-333)\<close>

text \<open>
  Lines 321-324. With no configured window the segment length is \<^verbatim>\<open>(2 / low) * frequency\<close>;
  \<^verbatim>\<open>low\<close> is a Python number taken from the tuple \<^verbatim>\<open>band\<close>, and dividing by a zero
  one raises.
\<close>

definition welch_nperseg :: "PeriodogramAnalysis \<Rightarrow> Signal \<Rightarrow> real \<times> real \<Rightarrow> error + real" where
  "welch_nperseg self s band =
     (case window_length_for_welch self of
        Some w \<Rightarrow> Inr (w * rate s)
      | None \<Rightarrow> if fst band = 0 then Inl (Py ZeroDivisionError) else Inr ((2 / fst band) * rate s))"

definition computing_welch_bandpower ::
  "library \<Rightarrow> PeriodogramAnalysis \<Rightarrow> Signal \<Rightarrow> real \<times> real \<Rightarrow> nat \<Rightarrow> bool \<Rightarrow> error + npfloat" where
  "computing_welch_bandpower L self s band channel relative =
     err_bind (welch_nperseg self s band) (\<lambda>nperseg.
     err_bind (from_lib (getitem L s channel)) (\<lambda>x.
     err_bind (from_lib (welch L x (rate s) nperseg None)) (\<lambda>(f, p).
       band_power_of L f p band relative)))"

subsection \<open>\<^verbatim>\<open>computing_ratio_and_bandpower\<close> (lines 219-263)\<close>

text \<open>
  The method returns nothing and writes to the logger, so the model returns the lines
  written, in order, and the exception that ended the method, if any. First the loop over
  \<^verbatim>\<open>self.band_list\<close> (lines 249-259).
\<close>

fun report_bands ::
  "library \<Rightarrow> PeriodogramAnalysis \<Rightarrow> Signal \<Rightarrow> nat \<Rightarrow> (real \<times> real) list
     \<Rightarrow> log_line list \<times> (error + unit)" where
  "report_bands L self s channel [] = ([], Inr ())"
| "report_bands L self s channel (band # rest) =
     (case computing_multitaper_bandpower L s band channel False of
        Inl e \<Rightarrow> ([], Inl e)
      | Inr multitaper_power \<Rightarrow>
     (case computing_multitaper_bandpower L s band channel True of
        Inl e \<Rightarrow> ([], Inl e)
      | Inr multitaper_power_rel \<Rightarrow>
     (let l1 = [BandPower band False Multitaper multitaper_power,
                BandPower band True Multitaper multitaper_power_rel] in
      case computing_welch_bandpower L self s band channel False of
        Inl e \<Rightarrow> (l1, Inl e)
      | Inr welch_power \<Rightarrow>
     (case computing_welch_bandpower L self s band channel True of
        Inl e \<Rightarrow> (l1, Inl e)
      | Inr welch_power_rel \<Rightarrow>
     (let l2 = l1 @ [BandPower band False Welch welch_power,
                     BandPower band True Welch welch_power_rel];
          (l3, r) = report_bands L self s channel rest
      in (l2 @ l3, r))))))"

text \<open>
  The body of the loop over the channels (lines 234-263).
  \<^verbatim>\<open>power_dict[chunk_index][channel]['delta_power']\<close> raises \<^verbatim>\<open>KeyError\<close> when
  the chunk or the channel has no entry.
\<close>

definition named_lines :: "nat \<Rightarrow> power_entry \<Rightarrow> log_line list" where
  "named_lines channel p =
     [NamedPower False ''delta'' channel (Fin (delta_power p)),
      NamedPower True ''delta'' channel (delta_rel_power p),
      NamedPower False ''theta'' channel (Fin (theta_power p)),
      NamedPower True ''theta'' channel (theta_rel_power p),
      NamedPower False ''alpha'' channel (Fin (alpha_power p)),
      NamedPower True ''alpha'' channel (alpha_rel_power p),
      NamedPower False ''beta'' channel (Fin (beta_power p)),
      NamedPower True ''beta'' channel (beta_rel_power p),
      NamedPower False ''gamma'' channel (Fin (gamma_power p)),
      NamedPower True ''gamma'' channel (gamma_rel_power p)]"

definition report_channel ::
  "library \<Rightarrow> PeriodogramAnalysis \<Rightarrow> Signal \<Rightarrow> (nat \<times> power_dict) list \<Rightarrow> nat \<Rightarrow> nat
     \<Rightarrow> log_line list \<times> (error + unit)" where
  "report_channel L self s power_dict chunk_index channel =
     (case map_of power_dict chunk_index of
        None \<Rightarrow> ([Analysis chunk_index channel], Inl (Py KeyError))
      | Some pd \<Rightarrow>
     (case map_of pd channel of
        None \<Rightarrow> ([Analysis chunk_index channel], Inl (Py KeyError))
      | Some p \<Rightarrow>
     (case report_bands L self s channel (band_list self) of
        (l, Inl e) \<Rightarrow> (Analysis chunk_index channel # l, Inl e)
      | (l, Inr u) \<Rightarrow> (Analysis chunk_index channel # l @ named_lines channel p, Inr ()))))"

fun report_channels ::
  "library \<Rightarrow> PeriodogramAnalysis \<Rightarrow> Signal \<Rightarrow> (nat \<times> power_dict) list \<Rightarrow> nat \<Rightarrow> nat list
     \<Rightarrow> log_line list \<times> (error + unit)" where
  "report_channels L self s power_dict chunk_index [] = ([], Inr ())"
| "report_channels L self s power_dict chunk_index (channel # rest) =
     (if channel \<in> set (exclude_channel_list self)
      then report_channels L self s power_dict chunk_index rest
      else
        case report_channel L self s power_dict chunk_index channel of
          (l, Inl e) \<Rightarrow> (l, Inl e)
        | (l, Inr u) \<Rightarrow>
            (let (l', r) = report_channels L self s power_dict chunk_index rest in (l @ l', r)))"

definition computing_ratio_and_bandpower ::
  "library \<Rightarrow> PeriodogramAnalysis \<Rightarrow> Signal \<Rightarrow> (nat \<times> power_dict) list \<Rightarrow> nat
     \<Rightarrow> log_line list \<times> (error + unit)" where
  "computing_ratio_and_bandpower L self s power_dict chunk_index =
     report_channels L self s power_dict chunk_index [0..<number_of_channels s]"

subsection \<open>\<^verbatim>\<open>__call__\<close> (lines 40-67)\<close>

text \<open>
  The loop over \<^verbatim>\<open>enumerate(signal)\<close>, with the two dictionaries built so far. The
  result is the pair \<^verbatim>\<open>(psd_dict, power_dict)\<close> or the exception that ended the call,
  beside the lines logged until then. The decorator \<^verbatim>\<open>cache_call\<close> belongs to the host
  framework and is left out.
\<close>

fun call_chunks ::
  "library \<Rightarrow> PeriodogramAnalysis \<Rightarrow> nat \<Rightarrow> Signal list
     \<Rightarrow> (nat \<times> psd_dict) list \<Rightarrow> (nat \<times> power_dict) list
     \<Rightarrow> log_line list \<times> (error + (nat \<times> psd_dict) list \<times> (nat \<times> power_dict) list)" where
  "call_chunks L self chunk_idx [] psds powers = ([], Inr (psds, powers))"
| "call_chunks L self chunk_idx (signal_piece # rest) psds powers =
     (case computing_welch_periodogram L self signal_piece of
        Inl e \<Rightarrow> ([], Inl e)
      | Inr pd \<Rightarrow>
     (case computing_absolute_and_relative_power L pd of
        Inl e \<Rightarrow> ([], Inl e)
      | Inr pw \<Rightarrow>
     (let psds' = psds @ [(chunk_idx, pd)];
          powers' = powers @ [(chunk_idx, pw)]
      in case computing_ratio_and_bandpower L self signal_piece powers' chunk_idx of
           (l, Inl e) \<Rightarrow> (l, Inl e)
         | (l, Inr u) \<Rightarrow>
             (let (l', r) = call_chunks L self (Suc chunk_idx) rest psds' powers'
              in (l @ l', r)))))"

definition PeriodogramAnalysis_call ::
  "library \<Rightarrow> PeriodogramAnalysis \<Rightarrow> Signal list
     \<Rightarrow> log_line list \<times> (error + (nat \<times> psd_dict) list \<times> (nat \<times> power_dict) list)" where
  "PeriodogramAnalysis_call L self signal = call_chunks L self 0 signal [] []"

section \<open>A reference instance of the library\<close>

text \<open>
  The theorems of this development hold for every library. To run the methods on concrete
  inputs the following instance is used.
  \<^item> \<open>simpson_rule\<close> is the composite Simpson rule on equally spaced samples in the way
    \<^verbatim>\<open>scipy.integrate.simpson\<close> evaluates it: with no sample it raises \<^verbatim>\<open>IndexError\<close>
    (the routine reads the last samples with negative indices); one sample gives 0; two
    samples give the trapezoid; an odd number of samples gives the 1-4-1 rule; an even number
    gives the 1-4-1 rule on all but the last interval and a parabolic correction for the last.
  \<^item> \<open>welch_shape\<close> has the argument handling and the frequency axis of \<^verbatim>\<open>sig.welch\<close>:
    an empty input gives empty arrays; the segment length must be at least 1 and is cut
    down to the length of the input; the FFT length \<^verbatim>\<open>nfft\<close> is the segment length by
    default and must not be smaller; the bins are \<open>k * fs / nfft\<close> for \<open>k \<le> nfft div 2\<close>.
    Its density is a placeholder, the mean square of the samples at every bin, not the
    Welch estimate.
  \<^item> \<open>multitaper_shape\<close> is a placeholder of the same kind on the bins of the full input.
  \<^item> \<open>column_getitem\<close> reads column \<open>c\<close> of the buffer.
\<close>

fun basic_simpson :: "real list \<Rightarrow> real" where
  "basic_simpson (y0 # y1 # y2 # ys) = (y0 + 4 * y1 + y2) + basic_simpson (y2 # ys)"
| "basic_simpson ys = 0"

definition simpson_rule :: "real list \<Rightarrow> real \<Rightarrow> py_exn + real" where
  "simpson_rule ys dx =
     (let n = length ys in
      if n = 0 then Inl IndexError
      else if odd n then Inr (dx / 3 * basic_simpson ys)
      else if n = 2 then Inr (dx / 2 * (ys ! 0 + ys ! 1))
      else Inr (dx / 3 * basic_simpson (butlast ys)
                + dx * (5 / 12 * ys ! (n - 1) + 2 / 3 * ys ! (n - 2) - 1 / 12 * ys ! (n - 3))))"

definition rfftfreq :: "nat \<Rightarrow> real \<Rightarrow> real list" where
  "rfftfreq n fs = map (\<lambda>k. real k * fs / real n) [0..<n div 2 + 1]"

definition mean_square :: "real list \<Rightarrow> real" where
  "mean_square xs = sum_list (map (\<lambda>x. x * x) xs) / real (length xs)"

definition flat_curve :: "real list \<Rightarrow> real \<Rightarrow> nat \<Rightarrow> real list \<times> real list" where
  "flat_curve xs fs n = (rfftfreq n fs, replicate (n div 2 + 1) (mean_square xs))"

definition welch_shape ::
  "real list \<Rightarrow> real \<Rightarrow> real \<Rightarrow> real option \<Rightarrow> py_exn + (real list \<times> real list)" where
  "welch_shape xs fs nperseg nfft =
     (if xs = [] then Inr ([], [])
      else if nperseg < 1 then Inl ValueError
      else
        let n = min (nat \<lfloor>nperseg\<rfloor>) (length xs) in
        case nfft of
          None \<Rightarrow> Inr (flat_curve xs fs n)
        | Some m \<Rightarrow> if m < real n then Inl ValueError else Inr (flat_curve xs fs (nat \<lfloor>m\<rfloor>)))"

definition multitaper_shape :: "real list \<Rightarrow> real \<Rightarrow> py_exn + (real list \<times> real list)" where
  "multitaper_shape xs fs =
     (if xs = [] then Inl ValueError
      else Inr (replicate (length xs div 2 + 1) (mean_square xs), rfftfreq (length xs) fs))"

definition column_getitem :: "Signal \<Rightarrow> nat \<Rightarrow> py_exn + real list" where
  "column_getitem s c = (if c < length (data s) then Inr (data s ! c) else Inl IndexError)"

definition reference_library :: library where
  "reference_library =
     \<lparr>welch = welch_shape, simpson = simpson_rule,
      multitaper_psd = multitaper_shape, getitem = column_getitem\<rparr>"


text \<open>An outcome is a Python exception, or a value: it is none of the specification's error kinds.\<close>

definition python_error :: "error + 'a \<Rightarrow> bool" where
  "python_error r = (case r of Inl (Py p) \<Rightarrow> True | Inl _ \<Rightarrow> False | Inr _ \<Rightarrow> True)"

section \<open>Example inputs\<close>

text \<open>
  A chunk of one channel with a mean of 2, sampled at 4 Hz, analysed with a window of one
  second; a chunk of three channels sampled at 64 Hz, analysed with channel 1 excluded, a
  window of four samples and the band from 8 Hz to 40 Hz; a chunk of a single sample.
\<close>

definition dc_signal :: Signal where
  "dc_signal = \<lparr>rate = 4, number_of_channels = 1, data = [[1, 3, 1, 3]]\<rparr>"

definition dc_config :: PeriodogramAnalysis where
  "dc_config = \<lparr>exclude_channel_list = [], band_list = [(1 / 2, 2)],
                 window_length_for_welch = Some 1\<rparr>"

definition eeg_signal :: Signal where
  "eeg_signal = \<lparr>rate = 64, number_of_channels = 3,
                  data = [[1, 3, 1, 3], [0, 0, 0, 0], [4, 0, 4, 0]]\<rparr>"

definition eeg_config :: PeriodogramAnalysis where
  "eeg_config = \<lparr>exclude_channel_list = [1], band_list = [(8, 40)],
                  window_length_for_welch = Some (1 / 16)\<rparr>"

definition one_sample :: Signal where
  "one_sample = \<lparr>rate = 1, number_of_channels = 1, data = [[5]]\<rparr>"

section \<open>Outcomes and errors\<close>

lemma err_bind_simps [simp]:
  "err_bind (Inl e) f = Inl e"
  "err_bind (Inr x) f = f x"
  by (simp_all add: err_bind_def)

lemma from_lib_simps [simp]:
  "from_lib (Inl p) = Inl (Py p)"
  "from_lib (Inr x) = Inr x"
  by (simp_all add: from_lib_def)

lemma err_bind_eq_Inr: "err_bind m f = Inr y \<longleftrightarrow> (\<exists>x. m = Inr x \<and> f x = Inr y)"
  by (cases m) simp_all

lemma err_bind_eq_Inl: "err_bind m f = Inl e \<longleftrightarrow> m = Inl e \<or> (\<exists>x. m = Inr x \<and> f x = Inl e)"
  by (cases m) simp_all

lemma from_lib_eq_Inr [simp]: "from_lib r = Inr x \<longleftrightarrow> r = Inr x"
  by (cases r) simp_all

lemma from_lib_eq_Inl: "from_lib r = Inl e \<longleftrightarrow> (\<exists>p. r = Inl p \<and> e = Py p)"
  by (cases r) auto

lemma python_error_simps [simp]:
  "python_error (Inl (Py p))" "python_error (Inr x)"
  "\<not> python_error (Inl InvalidSignalError)"
  "\<not> python_error (Inl InvalidWindowError)"
  "\<not> python_error (Inl InsufficientResolutionError)"
  by (simp_all add: python_error_def)

lemma python_error_InlD: "python_error (Inl e) \<Longrightarrow> \<exists>p. e = Py p"
  by (cases e) simp_all

lemma python_error_iff: "python_error r \<longleftrightarrow> (\<forall>e. r = Inl e \<longrightarrow> (\<exists>p. e = Py p))"
  by (cases r) (auto dest: python_error_InlD)

lemma python_error_bind:
  "python_error m \<Longrightarrow> (\<And>x. m = Inr x \<Longrightarrow> python_error (f x)) \<Longrightarrow> python_error (err_bind m f)"
  by (cases m) (auto dest: python_error_InlD)

lemma python_error_from_lib: "python_error (from_lib r)"
  by (cases r) simp_all

lemma python_error_freq_resolution: "python_error (freq_resolution fs)"
  by (simp add: freq_resolution_def)

lemma python_error_take_masked: "python_error (take_masked ys m)"
  by (simp add: take_masked_def)

lemma python_error_data_column: "python_error (data_column s ch)"
  by (simp add: data_column_def)

lemma python_error_welch_nperseg: "python_error (welch_nperseg self s band)"
  by (simp add: welch_nperseg_def split: option.split)

lemmas python_error_basic =
  python_error_from_lib python_error_freq_resolution python_error_take_masked
  python_error_data_column python_error_welch_nperseg

lemma python_error_masked_simpson: "python_error (masked_simpson L ps m dx)"
  unfolding masked_simpson_def
  by (intro python_error_bind python_error_basic)

lemma python_error_band_power_of: "python_error (band_power_of L fs ps band relative)"
proof (cases band)
  case (Pair low high)
  have "python_error (if relative
          then err_bind (from_lib (simpson L ps dx)) (\<lambda>total. Inr (np_true_divide bp total))
          else Inr (Fin bp))" for dx bp
    by (auto intro!: python_error_bind python_error_basic)
  then show ?thesis
    unfolding band_power_of_def Pair prod.case
    by (intro python_error_bind python_error_basic python_error_masked_simpson)
qed

lemma python_error_channel_power: "python_error (channel_power L e)"
  unfolding channel_power_def Let_def
  by (intro python_error_bind python_error_basic python_error_masked_simpson) simp

lemma python_error_welch_bandpower:
  "python_error (computing_welch_bandpower L self s band ch relative)"
  unfolding computing_welch_bandpower_def
  by (intro python_error_bind python_error_basic)
     (simp add: python_error_band_power_of split: prod.split)

lemma python_error_multitaper_bandpower:
  "python_error (computing_multitaper_bandpower L s band ch relative)"
  unfolding computing_multitaper_bandpower_def
  by (intro python_error_bind python_error_basic)
     (simp add: python_error_band_power_of split: prod.split)

lemma python_error_welch_channels: "python_error (welch_channels L self s win chs)"
proof (induction chs)
  case Nil
  show ?case by simp
next
  case (Cons ch rest)
  have "python_error (err_bind (data_column s ch) (\<lambda>col.
        err_bind (from_lib (welch L (remove_bias col) (rate s) win (Some (4 * win)))) (\<lambda>(f, p).
        err_bind (welch_channels L self s win rest) (\<lambda>more.
          Inr ((ch, \<lparr>freqs = f, psd = p\<rparr>) # more)))))"
    by (intro python_error_bind python_error_basic)
       (auto intro!: python_error_bind Cons.IH split: prod.split)
  with Cons.IH show ?case by simp
qed

lemma python_error_welch_periodogram: "python_error (computing_welch_periodogram L self s)"
  by (simp add: computing_welch_periodogram_def python_error_welch_channels split: option.split)

lemma python_error_abs_rel: "python_error (computing_absolute_and_relative_power L pd)"
proof (induction L pd rule: computing_absolute_and_relative_power.induct)
  case (1 L)
  show ?case by simp
next
  case (2 L channel e rest)
  show ?case
    unfolding computing_absolute_and_relative_power.simps
    by (intro python_error_bind python_error_channel_power "2.IH") simp
qed

lemma python_error_report_bands: "python_error (snd (report_bands L self s ch bands))"
proof (induction bands)
  case Nil
  show ?case by simp
next
  case (Cons band rest)
  have a: "python_error (computing_multitaper_bandpower L s band ch False)"
    and b: "python_error (computing_multitaper_bandpower L s band ch True)"
    and c: "python_error (computing_welch_bandpower L self s band ch False)"
    and d: "python_error (computing_welch_bandpower L self s band ch True)"
    by (rule python_error_multitaper_bandpower python_error_welch_bandpower)+
  from a b c d Cons show ?case
    by (auto simp: python_error_iff Let_def split: sum.split prod.split)
qed

lemma python_error_report_channel:
  "python_error (snd (report_channel L self s pds k ch))"
proof -
  have "python_error (snd (report_bands L self s ch (band_list self)))"
    by (rule python_error_report_bands)
  then show ?thesis
    by (auto simp: python_error_iff report_channel_def split: option.split prod.split sum.split)
qed

lemma python_error_report_channels:
  "python_error (snd (report_channels L self s pds k chs))"
proof (induction chs)
  case Nil
  show ?case by simp
next
  case (Cons ch rest)
  have "python_error (snd (report_channel L self s pds k ch))"
    by (rule python_error_report_channel)
  with Cons show ?case
    by (auto simp: python_error_iff Let_def split: sum.split prod.split)
qed

lemma python_error_ratio:
  "python_error (snd (computing_ratio_and_bandpower L self s pds k))"
  by (simp add: computing_ratio_and_bandpower_def python_error_report_channels)

lemma python_error_call_chunks:
  "python_error (snd (call_chunks L self k signal psds powers))"
proof (induction signal arbitrary: k psds powers)
  case Nil
  show ?case by simp
next
  case (Cons s rest)
  show ?case
  proof (cases "computing_welch_periodogram L self s")
    case (Inl e)
    with python_error_welch_periodogram [of L self s] show ?thesis
      by (auto simp: python_error_iff)
  next
    case pd: (Inr pd)
    show ?thesis
    proof (cases "computing_absolute_and_relative_power L pd")
      case (Inl e)
      with python_error_abs_rel [of L pd] pd show ?thesis
        by (auto simp: python_error_iff)
    next
      case pw: (Inr pw)
      obtain l r where lr:
        "computing_ratio_and_bandpower L self s (powers @ [(k, pw)]) k = (l, r)"
        by force
      obtain l' r' where lr':
        "call_chunks L self (Suc k) rest (psds @ [(k, pd)]) (powers @ [(k, pw)]) = (l', r')"
        by force
      from python_error_ratio [of L self s "powers @ [(k, pw)]" k] lr
      have r: "python_error r" by simp
      from Cons.IH [of "Suc k" "psds @ [(k, pd)]" "powers @ [(k, pw)]"] lr'
      have r': "python_error r'" by simp
      from r r' show ?thesis
        using pd pw lr lr' by (cases r) (auto simp: python_error_iff Let_def)
    qed
  qed
qed

section \<open>Masks, resolution and integration of one curve\<close>

lemma band_mask_length [simp]: "length (band_mask fs low high) = length fs"
  by (simp add: band_mask_def)

lemma band_mask_nth:
  "i < length fs \<Longrightarrow> band_mask fs low high ! i \<longleftrightarrow> low \<le> fs ! i \<and> fs ! i \<le> high"
  by (simp add: band_mask_def)

lemma channel_power_masks:
  assumes "channel_power L e = Inr p"
  shows "idx_delta p = band_mask (freqs e) (1 / 2) 4"
    and "idx_theta p = band_mask (freqs e) 4 8"
    and "idx_alpha p = band_mask (freqs e) 8 12"
    and "idx_beta p = band_mask (freqs e) 12 30"
    and "idx_gamma p = band_mask (freqs e) 30 100"
  using assms
  by (auto simp: channel_power_def Let_def err_bind_eq_Inr)

lemma take_masked_band:
  "length ps = length fs \<Longrightarrow>
   take_masked ps (band_mask fs low high)
     = Inr (map fst (filter (\<lambda>(y, f). low \<le> f \<and> f \<le> high) (zip ps fs)))"
  unfolding take_masked_def band_mask_def
  by (simp add: zip_map2 filter_map comp_def case_prod_unfold)

text \<open>A band that holds no bin of the curve hands the integrator an empty array.\<close>

lemma take_masked_empty:
  assumes "length ps = length fs" "\<forall>f\<in>set fs. \<not> (low \<le> f \<and> f \<le> high)"
  shows "take_masked ps (band_mask fs low high) = Inr []"
proof -
  have "filter (\<lambda>(y, f). low \<le> f \<and> f \<le> high) (zip ps fs) = []"
    using assms(2) by (auto simp: filter_empty_conv dest: set_zip_rightD)
  with assms(1) show ?thesis by (simp add: take_masked_band)
qed


lemma freq_resolution_ok: "2 \<le> length fs \<Longrightarrow> freq_resolution fs = Inr (fs ! 1 - fs ! 0)"
  by (simp add: freq_resolution_def)

lemma np_true_divide_zero:
  "np_true_divide b 0 = (if b = 0 then NaN else if 0 < b then PosInf else NegInf)"
  by (simp add: np_true_divide_def)

lemmas reference_eval =
  band_power_of_def freq_resolution_def masked_simpson_def take_masked_def band_mask_def
  reference_library_def simpson_rule_def


section \<open>Claims about one curve\<close>

text \<open>
  Claim C7. The mask of a band is true at a bin exactly when the bin's frequency lies in
  the closed interval from \<open>low\<close> to \<open>high\<close>; the mask has one entry per bin. This holds for
  the mask of any band (lines 291 and 328) and for the five masks that
  \<^verbatim>\<open>computing_absolute_and_relative_power\<close> stores (lines 125-129).
\<close>

theorem band_mask_closed_interval:
  assumes "i < length fs"
  shows "length (band_mask fs low high) = length fs \<and>
         (band_mask fs low high ! i \<longleftrightarrow> low \<le> fs ! i \<and> fs ! i \<le> high) \<and>
         (\<forall>p. channel_power L \<lparr>freqs = fs, psd = ps\<rparr> = Inr p \<longrightarrow>
            (idx_delta p ! i \<longleftrightarrow> 1 / 2 \<le> fs ! i \<and> fs ! i \<le> 4) \<and>
            (idx_theta p ! i \<longleftrightarrow> 4 \<le> fs ! i \<and> fs ! i \<le> 8) \<and>
            (idx_alpha p ! i \<longleftrightarrow> 8 \<le> fs ! i \<and> fs ! i \<le> 12) \<and>
            (idx_beta p ! i \<longleftrightarrow> 12 \<le> fs ! i \<and> fs ! i \<le> 30) \<and>
            (idx_gamma p ! i \<longleftrightarrow> 30 \<le> fs ! i \<and> fs ! i \<le> 100))"
  using assms by (auto simp: channel_power_masks band_mask_nth)

text \<open>The bin at 4 Hz belongs to the band from 0.5 to 4 and to the band from 4 to 8.\<close>

theorem band_mask_closed_interval_witness:
  "(2 :: nat) < length [0, 1 / 2, 4, 9 / 2 :: real] \<and>
   band_mask [0, 1 / 2, 4, 9 / 2] (1 / 2) 4 ! 2 \<and>
   band_mask [0, 1 / 2, 4, 9 / 2] 4 8 ! 2 \<and>
   \<not> band_mask [0, 1 / 2, 4, 9 / 2] 8 12 ! 2"
  using band_mask_closed_interval [of 2 "[0, 1 / 2, 4, 9 / 2]" "1 / 2" 4]
    band_mask_closed_interval [of 2 "[0, 1 / 2, 4, 9 / 2]" 4 8]
    band_mask_closed_interval [of 2 "[0, 1 / 2, 4, 9 / 2]" 8 12]
  by simp

text \<open>
  Claim C6 says that a band whose mask selects no bin yields the power 0.0 and never an
  exception. On the curve with the bins 0, 1 and 2 Hz and the band from 30 to 100 Hz the
  source passes the empty selection to the integrator unguarded: for every library the
  outcome is the integrator's outcome on an empty array, and with the Simpson rule of the
  reference library that is \<^verbatim>\<open>IndexError\<close>.
\<close>

theorem empty_mask_reaches_simpson:
  "band_power_of L [0, 1, 2] [1, 1, 1] (30, 100) False
     = (case simpson L [] 1 of Inl e \<Rightarrow> Inl (Py e) | Inr v \<Rightarrow> Inr (Fin v)) \<and>
   band_power_of reference_library [0, 1, 2] [1, 1, 1] (30, 100) False = Inl (Py IndexError)"
  by (simp add: band_power_of_def freq_resolution_def masked_simpson_def take_masked_def
      band_mask_def reference_library_def simpson_rule_def split: sum.split)




text \<open>
  What the division does when the total power of a curve with at least two bins is exactly
  zero and the integral over the band is computed: the relative power is a value and not an
  exception, \<open>NaN\<close> when the power of the band is 0 as well. The same holds for the five
  relative powers that \<^verbatim>\<open>computing_absolute_and_relative_power\<close> stores.
\<close>

lemma relative_power_of_zero_total:
  assumes "2 \<le> length fs"
    and "simpson L ps (fs ! 1 - fs ! 0) = Inr 0"
    and "masked_simpson L ps (band_mask fs low high) (fs ! 1 - fs ! 0) = Inr b"
  shows "band_power_of L fs ps (low, high) True =
           Inr (if b = 0 then NaN else if 0 < b then PosInf else NegInf) \<and>
         (\<forall>p. channel_power L \<lparr>freqs = fs, psd = ps\<rparr> = Inr p \<longrightarrow>
            delta_rel_power p = np_true_divide (delta_power p) 0 \<and>
            theta_rel_power p = np_true_divide (theta_power p) 0 \<and>
            alpha_rel_power p = np_true_divide (alpha_power p) 0 \<and>
            beta_rel_power p = np_true_divide (beta_power p) 0 \<and>
            gamma_rel_power p = np_true_divide (gamma_power p) 0 \<and>
            (delta_power p = 0 \<longrightarrow> delta_rel_power p = NaN) \<and>
            (theta_power p = 0 \<longrightarrow> theta_rel_power p = NaN) \<and>
            (alpha_power p = 0 \<longrightarrow> alpha_rel_power p = NaN) \<and>
            (beta_power p = 0 \<longrightarrow> beta_rel_power p = NaN) \<and>
            (gamma_power p = 0 \<longrightarrow> gamma_rel_power p = NaN))"
proof -
  have "band_power_of L fs ps (low, high) True = Inr (np_true_divide b 0)"
    using assms by (simp add: band_power_of_def freq_resolution_ok)
  moreover have "channel_power L \<lparr>freqs = fs, psd = ps\<rparr> = Inr p \<Longrightarrow>
            delta_rel_power p = np_true_divide (delta_power p) 0 \<and>
            theta_rel_power p = np_true_divide (theta_power p) 0 \<and>
            alpha_rel_power p = np_true_divide (alpha_power p) 0 \<and>
            beta_rel_power p = np_true_divide (beta_power p) 0 \<and>
            gamma_rel_power p = np_true_divide (gamma_power p) 0" for p
    using assms(1,2)
    by (auto simp: channel_power_def Let_def freq_resolution_ok err_bind_eq_Inr)
  ultimately show ?thesis
    by (auto simp: np_true_divide_zero)
qed

text \<open>
  Claim C5 says that on a curve whose total power is exactly zero the relative power of
  every band is a sentinel value and never an exception. On the all-zero curve with the
  bins 0, 1 and 2 Hz the band from 4 to 8 Hz holds no bin, and the source passes the empty
  selection to the integrator before it divides: for every library the outcome is the
  integrator's exception on an empty array, if it raises one. With the Simpson rule of the
  reference library the total power is 0 and the relative power of that band is
  \<^verbatim>\<open>IndexError\<close>, whereas the band from 0.5 to 2 Hz, which holds two bins, gives \<open>NaN\<close>.
\<close>

theorem zero_total_power_empty_band:
  "band_power_of L [0, 1, 2] [0, 0, 0] (4, 8) True
     = (case simpson L [] 1 of
          Inl e \<Rightarrow> Inl (Py e)
        | Inr bp \<Rightarrow>
            (case simpson L [0, 0, 0] 1 of
               Inl e \<Rightarrow> Inl (Py e)
             | Inr tp \<Rightarrow> Inr (np_true_divide bp tp))) \<and>
   simpson reference_library [0, 0, 0] 1 = Inr 0 \<and>
   band_power_of reference_library [0, 1, 2] [0, 0, 0] (4, 8) True = Inl (Py IndexError) \<and>
   band_power_of reference_library [0, 1, 2] [0, 0, 0] (1 / 2, 2) True = Inr NaN"
proof -
  have "band_power_of L [0, 1, 2] [0, 0, 0] (4, 8) True
     = (case simpson L [] 1 of
          Inl e \<Rightarrow> Inl (Py e)
        | Inr bp \<Rightarrow>
            (case simpson L [0, 0, 0] 1 of
               Inl e \<Rightarrow> Inl (Py e)
             | Inr tp \<Rightarrow> Inr (np_true_divide bp tp)))"
    by (simp add: band_power_of_def freq_resolution_def masked_simpson_def take_masked_def
        band_mask_def split: sum.split)
  moreover have "simpson reference_library [0, 0, 0] 1 = Inr 0"
    by (simp add: reference_eval)
  moreover have "band_power_of reference_library [0, 1, 2] [0, 0, 0] (4, 8) True
      = Inl (Py IndexError)"
    by (simp add: reference_eval)
  moreover have "band_power_of reference_library [0, 1, 2] [0, 0, 0] (1 / 2, 2) True = Inr NaN"
    by (simp add: reference_eval np_true_divide_def)
  ultimately show ?thesis by blast
qed

section \<open>Claims about the Welch band power of one band\<close>




text \<open>
  Claim C2 says that the samples are mean-centred at both places where the Welch estimate
  is computed. On the channel 1, 3, 1, 3 (mean 2) \<^verbatim>\<open>computing_welch_periodogram\<close> calls
  the estimator on the centred samples -1, 1, -1, 1, whereas
  \<^verbatim>\<open>computing_welch_bandpower\<close> calls it on the samples 1, 3, 1, 3 as the indexing
  \<^verbatim>\<open>signal[channel]\<close> returns them, and without the FFT length. This holds for every
  estimator and integrator.
\<close>

theorem welch_bandpower_not_mean_centered:
  "computing_welch_periodogram L dc_config dc_signal =
     err_bind (from_lib (welch L [-1, 1, -1, 1] 4 4 (Some 16))) (\<lambda>(f, p).
       Inr [(0, \<lparr>freqs = f, psd = p\<rparr>)]) \<and>
   computing_welch_bandpower (L\<lparr>getitem := column_getitem\<rparr>) dc_config dc_signal band 0
       relative =
     err_bind (from_lib (welch L [1, 3, 1, 3] 4 4 None)) (\<lambda>(f, p).
       band_power_of (L\<lparr>getitem := column_getitem\<rparr>) f p band relative)"
  by (simp add: computing_welch_periodogram_def computing_welch_bandpower_def welch_nperseg_def
      dc_config_def dc_signal_def data_column_def column_getitem_def remove_bias_def np_mean_def
      split: sum.split prod.split)

section \<open>The iterations of the orchestrator\<close>

text \<open>
  The keys of the dictionaries of one chunk, and the result of the loop over the chunks:
  entry \<open>j\<close> of either dictionary has the key \<open>j\<close> and holds what the two methods
  returned for chunk \<open>j\<close>.
\<close>

lemma welch_channels_keys:
  "welch_channels L self s win chs = Inr pd \<Longrightarrow>
   map fst pd = filter (\<lambda>c. c \<notin> set (exclude_channel_list self)) chs"
  by (induction chs arbitrary: pd) (auto simp: err_bind_eq_Inr split: if_splits)

lemma welch_periodogram_keys:
  "computing_welch_periodogram L self s = Inr pd \<Longrightarrow>
   map fst pd = filter (\<lambda>c. c \<notin> set (exclude_channel_list self)) [0..<number_of_channels s]"
  by (auto simp: computing_welch_periodogram_def welch_channels_keys split: option.splits)

lemma abs_rel_keys:
  "computing_absolute_and_relative_power L pd = Inr pw \<Longrightarrow> map fst pw = map fst pd"
  by (induction L pd arbitrary: pw rule: computing_absolute_and_relative_power.induct)
     (auto simp: err_bind_eq_Inr)

lemma call_chunks_result:
  "snd (call_chunks L self k signal psds powers) = Inr (psds', powers') \<Longrightarrow>
   \<exists>np nw. psds' = psds @ np \<and> powers' = powers @ nw \<and>
     length np = length signal \<and> length nw = length signal \<and>
     (\<forall>j<length signal.
        fst (np ! j) = k + j \<and> fst (nw ! j) = k + j \<and>
        computing_welch_periodogram L self (signal ! j) = Inr (snd (np ! j)) \<and>
        computing_absolute_and_relative_power L (snd (np ! j)) = Inr (snd (nw ! j)))"
proof (induction signal arbitrary: k psds powers)
  case Nil
  then show ?case by simp
next
  case (Cons s rest)
  from Cons.prems obtain pd where pd: "computing_welch_periodogram L self s = Inr pd"
    by (cases "computing_welch_periodogram L self s") auto
  from Cons.prems pd obtain pw where pw: "computing_absolute_and_relative_power L pd = Inr pw"
    by (cases "computing_absolute_and_relative_power L pd") auto
  obtain l r where lr: "computing_ratio_and_bandpower L self s (powers @ [(k, pw)]) k = (l, r)"
    by force
  from Cons.prems pd pw lr have
    rest: "snd (call_chunks L self (Suc k) rest (psds @ [(k, pd)]) (powers @ [(k, pw)]))
            = Inr (psds', powers')"
    by (cases r) (auto simp: Let_def split: prod.splits)
  from Cons.IH [OF rest] obtain np nw where
    eq: "psds' = (psds @ [(k, pd)]) @ np" "powers' = (powers @ [(k, pw)]) @ nw" and
    len: "length np = length rest" "length nw = length rest" and
    each: "\<forall>j<length rest.
        fst (np ! j) = Suc k + j \<and> fst (nw ! j) = Suc k + j \<and>
        computing_welch_periodogram L self (rest ! j) = Inr (snd (np ! j)) \<and>
        computing_absolute_and_relative_power L (snd (np ! j)) = Inr (snd (nw ! j))"
    by blast
  have "\<forall>j<length (s # rest).
        fst (((k, pd) # np) ! j) = k + j \<and> fst (((k, pw) # nw) ! j) = k + j \<and>
        computing_welch_periodogram L self ((s # rest) ! j) = Inr (snd (((k, pd) # np) ! j)) \<and>
        computing_absolute_and_relative_power L (snd (((k, pd) # np) ! j))
          = Inr (snd (((k, pw) # nw) ! j))"
  proof (intro allI impI)
    fix j assume "j < length (s # rest)"
    then show "fst (((k, pd) # np) ! j) = k + j \<and> fst (((k, pw) # nw) ! j) = k + j \<and>
        computing_welch_periodogram L self ((s # rest) ! j) = Inr (snd (((k, pd) # np) ! j)) \<and>
        computing_absolute_and_relative_power L (snd (((k, pd) # np) ! j))
          = Inr (snd (((k, pw) # nw) ! j))"
      using pd pw each by (cases j) auto
  qed
  with eq len show ?case
    by (intro exI [of _ "(k, pd) # np"] exI [of _ "(k, pw) # nw"]) simp
qed

lemma map_fst_upt:
  assumes "length xs = n" "\<forall>j<n. fst (xs ! j) = j"
  shows "map fst xs = [0..<n]"
  using assms by (intro nth_equalityI) auto

lemma map_of_position:
  assumes "map fst xs = [0..<n]" "k < n"
  shows "map_of xs k = Some (snd (xs ! k))"
proof -
  have len: "length xs = n" using assms(1) by (metis length_map length_upt minus_nat.diff_0)
  have "distinct (map fst xs)" using assms(1) by simp
  moreover have "xs ! k \<in> set xs" using len assms(2) by simp
  moreover have "fst (xs ! k) = k"
    using assms len by (metis add_0 nth_map nth_upt)
  ultimately show ?thesis
    by (metis map_of_eq_Some_iff prod.collapse)
qed

text \<open>
  \<^verbatim>\<open>computing_welch_periodogram\<close> returns exactly when a window is configured and the
  column access and the estimator return for every channel that is not excluded.
\<close>

lemma welch_channels_succeeds_iff:
  "(\<exists>pd. welch_channels L self s win chs = Inr pd) \<longleftrightarrow>
   (\<forall>ch\<in>set chs. ch \<notin> set (exclude_channel_list self) \<longrightarrow>
      ch < length (data s) \<and>
      (\<exists>f p. welch L (remove_bias (data s ! ch)) (rate s) win (Some (4 * win)) = Inr (f, p)))"
proof (induction chs)
  case Nil
  show ?case by simp
next
  case (Cons ch rest)
  show ?case
  proof (cases "ch \<in> set (exclude_channel_list self)")
    case True
    with Cons.IH show ?thesis by simp
  next
    case False
    have "(\<exists>pd. welch_channels L self s win (ch # rest) = Inr pd) \<longleftrightarrow>
          (ch < length (data s) \<and>
           (\<exists>f p. welch L (remove_bias (data s ! ch)) (rate s) win (Some (4 * win)) = Inr (f, p)) \<and>
           (\<exists>pd. welch_channels L self s win rest = Inr pd))"
      using False by (auto simp: err_bind_eq_Inr data_column_def)
    with Cons.IH False show ?thesis by auto
  qed
qed

lemma welch_periodogram_succeeds_iff:
  "(\<exists>pd. computing_welch_periodogram L self s = Inr pd) \<longleftrightarrow>
   (\<exists>w. window_length_for_welch self = Some w \<and>
      (\<forall>ch<number_of_channels s. ch \<notin> set (exclude_channel_list self) \<longrightarrow>
         ch < length (data s) \<and>
         (\<exists>f p. welch L (remove_bias (data s ! ch)) (rate s) (w * rate s)
                  (Some (4 * (w * rate s))) = Inr (f, p))))"
proof (cases "window_length_for_welch self")
  case None
  then show ?thesis by (simp add: computing_welch_periodogram_def)
next
  case (Some w)
  then show ?thesis
    using welch_channels_succeeds_iff [of L self s "w * rate s" "[0..<number_of_channels s]"]
    by (simp add: computing_welch_periodogram_def Ball_def)
qed

lemma call_fails_with_chunk:
  assumes "k < length signal" "computing_welch_periodogram L self (signal ! k) = Inl e"
  shows "\<exists>e'. snd (PeriodogramAnalysis_call L self signal) = Inl e'"
proof (cases "snd (PeriodogramAnalysis_call L self signal)")
  case (Inl e')
  then show ?thesis by blast
next
  case (Inr r)
  then have "snd (call_chunks L self 0 signal [] []) = Inr (fst r, snd r)"
    by (simp add: PeriodogramAnalysis_call_def)
  from call_chunks_result [OF this] assms show ?thesis by auto
qed





lemma eeg_call_returns:
  "\<not> isl (snd (PeriodogramAnalysis_call reference_library eeg_config [eeg_signal]))"
  by code_simp



section \<open>Claims about the whole call\<close>

text \<open>
  Claim C8. When the call returns, both dictionaries have one entry per chunk, keyed by the
  chunk index, and for every chunk the keys of the PSD dictionary and of the power
  dictionary are the channel indices below \<^verbatim>\<open>number_of_channels\<close> that are not in
  \<^verbatim>\<open>exclude_channel_list\<close>, in increasing order.
\<close>

theorem result_keys:
  assumes "snd (PeriodogramAnalysis_call L self signal) = Inr (psds, powers)"
  shows "map fst psds = [0..<length signal] \<and> map fst powers = [0..<length signal] \<and>
         (\<forall>k<length signal. \<exists>pd pw.
            map_of psds k = Some pd \<and> map_of powers k = Some pw \<and>
            map fst pd = filter (\<lambda>c. c \<notin> set (exclude_channel_list self))
                           [0..<number_of_channels (signal ! k)] \<and>
            map fst pw = map fst pd \<and>
            set (map fst pd) = {c. c < number_of_channels (signal ! k) \<and>
                                   c \<notin> set (exclude_channel_list self)})"
proof -
  from call_chunks_result [OF assms [unfolded PeriodogramAnalysis_call_def]]
  have len: "length psds = length signal" "length powers = length signal"
    and each: "\<forall>j<length signal.
        fst (psds ! j) = j \<and> fst (powers ! j) = j \<and>
        computing_welch_periodogram L self (signal ! j) = Inr (snd (psds ! j)) \<and>
        computing_absolute_and_relative_power L (snd (psds ! j)) = Inr (snd (powers ! j))"
    by auto
  have k1: "map fst psds = [0..<length signal]"
    using len each by (intro map_fst_upt) auto
  have k2: "map fst powers = [0..<length signal]"
    using len each by (intro map_fst_upt) auto
  have "\<exists>pd pw.
            map_of psds k = Some pd \<and> map_of powers k = Some pw \<and>
            map fst pd = filter (\<lambda>c. c \<notin> set (exclude_channel_list self))
                           [0..<number_of_channels (signal ! k)] \<and>
            map fst pw = map fst pd \<and>
            set (map fst pd) = {c. c < number_of_channels (signal ! k) \<and>
                                   c \<notin> set (exclude_channel_list self)}"
    if k: "k < length signal" for k
  proof -
    let ?pd = "snd (psds ! k)" and ?pw = "snd (powers ! k)"
    from each k have p: "computing_welch_periodogram L self (signal ! k) = Inr ?pd"
      and q: "computing_absolute_and_relative_power L ?pd = Inr ?pw"
      by auto
    have keys: "map fst ?pd = filter (\<lambda>c. c \<notin> set (exclude_channel_list self))
                           [0..<number_of_channels (signal ! k)]"
      by (rule welch_periodogram_keys [OF p])
    have "set (map fst ?pd) = {c. c < number_of_channels (signal ! k) \<and>
                                   c \<notin> set (exclude_channel_list self)}"
      unfolding keys by auto
    with keys abs_rel_keys [OF q] map_of_position [OF k1 k] map_of_position [OF k2 k]
    show ?thesis by blast
  qed
  with k1 k2 show ?thesis by blast
qed

text \<open>
  Three channels with channel 1 excluded: the keys of the only chunk are 0 and 2.
\<close>

theorem result_keys_witness:
  "\<not> isl (snd (PeriodogramAnalysis_call reference_library eeg_config [eeg_signal])) \<and>
   number_of_channels eeg_signal = 3 \<and> exclude_channel_list eeg_config = [1] \<and>
   map fst (the (map_of (fst (projr
      (snd (PeriodogramAnalysis_call reference_library eeg_config [eeg_signal])))) 0)) = [0, 2] \<and>
   map fst (the (map_of (snd (projr
      (snd (PeriodogramAnalysis_call reference_library eeg_config [eeg_signal])))) 0)) = [0, 2]"
proof -
  let ?out = "snd (PeriodogramAnalysis_call reference_library eeg_config [eeg_signal])"
  have "?out = Inr (fst (projr ?out), snd (projr ?out))"
    using eeg_call_returns by (cases ?out) auto
  from result_keys [OF this] have
    "\<exists>pd pw. map_of (fst (projr ?out)) 0 = Some pd \<and> map_of (snd (projr ?out)) 0 = Some pw \<and>
        map fst pd = filter (\<lambda>c. c \<notin> set (exclude_channel_list eeg_config))
                           [0..<number_of_channels ([eeg_signal] ! 0)] \<and>
        map fst pw = map fst pd"
    by auto
  moreover have "filter (\<lambda>c. c \<notin> set (exclude_channel_list eeg_config))
                           [0..<number_of_channels ([eeg_signal] ! 0)] = [0, 2]"
    by code_simp
  ultimately show ?thesis
    using eeg_call_returns by (auto simp: eeg_signal_def eeg_config_def)
qed

text \<open>
  Claim C3, as the source has it. The source does not check the window: the segment length
  \<open>w * rate\<close> and the FFT length \<open>4 * (w * rate)\<close> go to the estimator as they are, and
  \<^verbatim>\<open>computing_welch_periodogram\<close> returns exactly when a window is configured and the
  column access and the estimator return for every channel that is not excluded. Neither
  the method nor the call fails with \<open>InvalidWindowError\<close>. When the method fails on some
  chunk, the whole call fails and returns no dictionary.
\<close>

theorem window_not_checked:
  "computing_welch_periodogram L self s \<noteq> Inl InvalidWindowError \<and>
   snd (PeriodogramAnalysis_call L self signal) \<noteq> Inl InvalidWindowError \<and>
   ((\<exists>pd. computing_welch_periodogram L self s = Inr pd) \<longleftrightarrow>
    (\<exists>w. window_length_for_welch self = Some w \<and>
       (\<forall>ch<number_of_channels s. ch \<notin> set (exclude_channel_list self) \<longrightarrow>
          ch < length (data s) \<and>
          (\<exists>f p. welch L (remove_bias (data s ! ch)) (rate s) (w * rate s)
                   (Some (4 * (w * rate s))) = Inr (f, p))))) \<and>
   (\<forall>k<length signal. \<forall>e. computing_welch_periodogram L self (signal ! k) = Inl e \<longrightarrow>
      (\<exists>e'. snd (PeriodogramAnalysis_call L self signal) = Inl e'))"
proof -
  have never: "r \<noteq> Inl InvalidWindowError" if "python_error r" for r :: "error + 'a"
    using that by (auto simp: python_error_iff)
  have a: "computing_welch_periodogram L self s \<noteq> Inl InvalidWindowError"
    by (rule never [OF python_error_welch_periodogram])
  have b: "snd (PeriodogramAnalysis_call L self signal) \<noteq> Inl InvalidWindowError"
    unfolding PeriodogramAnalysis_call_def by (rule never [OF python_error_call_chunks])
  show ?thesis
    using a b welch_periodogram_succeeds_iff [of L self s] call_fails_with_chunk [of _ signal L self]
    by blast
qed

text \<open>
  A window of zero seconds: the estimator of the reference library rejects the segment
  length 0, and the call fails.
\<close>

theorem window_not_checked_witness:
  "(0 :: nat) < length [one_sample] \<and>
   computing_welch_periodogram reference_library
     (dc_config\<lparr>window_length_for_welch := Some 0\<rparr>) ([one_sample] ! 0) = Inl (Py ValueError) \<and>
   isl (snd (PeriodogramAnalysis_call reference_library
     (dc_config\<lparr>window_length_for_welch := Some 0\<rparr>) [one_sample]))"
proof -
  have a: "computing_welch_periodogram reference_library
     (dc_config\<lparr>window_length_for_welch := Some 0\<rparr>) ([one_sample] ! 0) = Inl (Py ValueError)"
    by code_simp
  with window_not_checked [of reference_library "dc_config\<lparr>window_length_for_welch := Some 0\<rparr>"
      one_sample "[one_sample]"]
  have "\<exists>e'. snd (PeriodogramAnalysis_call reference_library
     (dc_config\<lparr>window_length_for_welch := Some 0\<rparr>) [one_sample]) = Inl e'"
    by auto
  with a show ?thesis by auto
qed

text \<open>
  Claim C3 as stated fails on a chunk of one sample at 1 Hz. With a window of two seconds
  the segment length 2 exceeds the number of samples, and the method returns a curve (the
  reference estimator, like \<^verbatim>\<open>sig.welch\<close>, cuts the segment down to the input). With a
  window of zero seconds the method fails, with the estimator's \<^verbatim>\<open>ValueError\<close>.
\<close>

theorem invalid_window_counterexample:
  "real (length (data one_sample ! 0)) < 2 * rate one_sample \<and>
   computing_welch_periodogram reference_library
     (dc_config\<lparr>window_length_for_welch := Some 2\<rparr>) one_sample
   = Inr [(0, \<lparr>freqs = [0, 1 / 8, 1 / 4, 3 / 8, 1 / 2], psd = [0, 0, 0, 0, 0]\<rparr>)] \<and>
   \<not> 0 < 0 * rate one_sample \<and>
   computing_welch_periodogram reference_library
     (dc_config\<lparr>window_length_for_welch := Some 0\<rparr>) one_sample
   = Inl (Py ValueError)"
proof -
  have "real (length (data one_sample ! 0)) < 2 * rate one_sample"
    by (simp add: one_sample_def)
  moreover have "computing_welch_periodogram reference_library
     (dc_config\<lparr>window_length_for_welch := Some 2\<rparr>) one_sample
   = Inr [(0, \<lparr>freqs = [0, 1 / 8, 1 / 4, 3 / 8, 1 / 2], psd = [0, 0, 0, 0, 0]\<rparr>)]"
    by code_simp
  moreover have "computing_welch_periodogram reference_library
     (dc_config\<lparr>window_length_for_welch := Some 0\<rparr>) one_sample
   = Inl (Py ValueError)"
    by code_simp
  ultimately show ?thesis by simp
qed





end
